theory Spec2Isabelle
  imports Main "HOL-Library.Word"
begin

section \<open>ConfidentialGame: encrypted handles and their plaintexts\<close>

text \<open>
  The contract \<^verbatim>\<open>ConfidentialGame\<close> computes on encrypted values through the FHE library
  (\<^verbatim>\<open>@fhevm/solidity/lib/FHE.sol\<close>), an external dependency. A value of type
  \<^verbatim>\<open>ebool\<close>, \<^verbatim>\<open>euint8\<close> or \<^verbatim>\<open>euint64\<close> is a handle; every library call returns
  the handle of its result. The three handle types are datatypes with one constructor for
  each library call the contract makes, so that a handle records how it was computed and two
  different computations never share a handle. \<open>Unset8\<close> and \<open>Unset64\<close> are the zero
  handle that a storage slot holds before its first write.
\<close>

type_synonym address = "160 word"
type_synonym bytes = "8 word list"

text \<open>
  An input ciphertext sent by a caller (\<^verbatim>\<open>externalEuint8\<close>): its handle and the plaintext
  that it encrypts, and what the encryption of the input has bound it to: the contract and
  the user it was made for (\<^verbatim>\<open>createEncryptedInput(contract, user)\<close>) and the input proof
  issued with it.
\<close>

datatype externalEuint8 =
  ExternalEuint8 (ext_handle: nat) (ext_plain: "8 word")
    (ext_contract: address) (ext_user: address) (ext_proof: bytes)

datatype ebool =
    FHE_asEbool bool
  | FHE_eq8 euint8 euint8
  | FHE_eqB ebool ebool
  | FHE_ge euint64 euint64
  | FHE_and ebool ebool
  | FHE_or ebool ebool
and euint8 =
    Unset8
  | FHE_asEuint8 "8 word"
  | FHE_fromExternal externalEuint8 bytes
  | FHE_select8 ebool euint8 euint8
and euint64 =
    Unset64
  | FHE_asEuint64 "64 word"
  | FHE_select64 ebool euint64 euint64
  | FHE_sub euint64 euint64

text \<open>
  Modelled from the spec: the FHE library is not part of the repository's sources. Its
  operations are the ones of the spec's predicate library: equality, comparison, boolean
  AND and OR, and \<open>select p a b\<close>, which is \<open>a\<close> when \<open>p\<close> is true and \<open>b\<close> otherwise.
  \<^verbatim>\<open>FHE.sub\<close> is subtraction on 64-bit unsigned values and wraps around, \<^verbatim>\<open>FHE.ge\<close>
  compares unsigned values, \<^verbatim>\<open>FHE.fromExternal\<close> yields the caller's ciphertext once it
  has verified it (\<open>verifyInput\<close> below), and an unset handle is read as an encryption
  of 0.
\<close>

fun decryptB :: "ebool \<Rightarrow> bool"
  and decrypt8 :: "euint8 \<Rightarrow> 8 word"
  and decrypt64 :: "euint64 \<Rightarrow> 64 word" where
  "decryptB (FHE_asEbool b) = b"
| "decryptB (FHE_eq8 x y) = (decrypt8 x = decrypt8 y)"
| "decryptB (FHE_eqB p q) = (decryptB p = decryptB q)"
| "decryptB (FHE_ge x y) = (decrypt64 y \<le> decrypt64 x)"
| "decryptB (FHE_and p q) = (decryptB p \<and> decryptB q)"
| "decryptB (FHE_or p q) = (decryptB p \<or> decryptB q)"
| "decrypt8 Unset8 = 0"
| "decrypt8 (FHE_asEuint8 v) = v"
| "decrypt8 (FHE_fromExternal c inputProof) = ext_plain c"
| "decrypt8 (FHE_select8 p x y) = (if decryptB p then decrypt8 x else decrypt8 y)"
| "decrypt64 Unset64 = 0"
| "decrypt64 (FHE_asEuint64 v) = v"
| "decrypt64 (FHE_select64 p x y) = (if decryptB p then decrypt64 x else decrypt64 y)"
| "decrypt64 (FHE_sub x y) = decrypt64 x - decrypt64 y"

text \<open>
  Modelled from the spec: the check that \<^verbatim>\<open>FHE.fromExternal\<close> makes before it yields a
  handle. A ciphertext has usage rights scoped to the context it was encrypted for, and the
  parameter \<^verbatim>\<open>inputProof\<close> is the proof matching the encrypted input: the input is accepted
  when it was made for this contract and for the caller and comes with its own proof. When
  the check fails, the call reverts.
\<close>

definition verifyInput :: "address \<Rightarrow> address \<Rightarrow> externalEuint8 \<Rightarrow> bytes \<Rightarrow> bool" where
  "verifyInput this sender c inputProof =
     (ext_contract c = this \<and> ext_user c = sender \<and> ext_proof c = inputProof)"

section \<open>Constants of the contract\<close>

definition GRID_WIDTH :: "8 word" where
  "GRID_WIDTH = 3"

definition GRID_SIZE :: "8 word" where
  "GRID_SIZE = GRID_WIDTH * GRID_WIDTH"

definition STARTING_GOLD :: "64 word" where
  "STARTING_GOLD = 10000"

definition STATUS_SUCCESS :: "8 word" where
  "STATUS_SUCCESS = 0"

definition STATUS_INVALID_BUILDING :: "8 word" where
  "STATUS_INVALID_BUILDING = 1"

definition STATUS_TILE_TAKEN :: "8 word" where
  "STATUS_TILE_TAKEN = 2"

definition STATUS_NO_FUNDS :: "8 word" where
  "STATUS_NO_FUNDS = 3"

section \<open>The internal functions\<close>

text \<open>\<^verbatim>\<open>_isValidBuilding\<close>: four equality tests, joined by OR.\<close>

definition isValidBuilding :: "euint8 \<Rightarrow> ebool" where
  "isValidBuilding buildingType =
     (let isOne = FHE_eq8 buildingType (FHE_asEuint8 1);
          isTwo = FHE_eq8 buildingType (FHE_asEuint8 2);
          isThree = FHE_eq8 buildingType (FHE_asEuint8 3);
          isFour = FHE_eq8 buildingType (FHE_asEuint8 4)
      in FHE_or (FHE_or isOne isTwo) (FHE_or isThree isFour))"

text \<open>\<^verbatim>\<open>_buildingCost\<close>: a chain of selects over the same four tests, starting from 0.\<close>

definition buildingCost :: "euint8 \<Rightarrow> euint64" where
  "buildingCost buildingType =
     (let cost0 = FHE_asEuint64 0;
          cost1 = FHE_select64 (FHE_eq8 buildingType (FHE_asEuint8 1)) (FHE_asEuint64 100) cost0;
          cost2 = FHE_select64 (FHE_eq8 buildingType (FHE_asEuint8 2)) (FHE_asEuint64 200) cost1;
          cost3 = FHE_select64 (FHE_eq8 buildingType (FHE_asEuint8 3)) (FHE_asEuint64 400) cost2;
          cost4 = FHE_select64 (FHE_eq8 buildingType (FHE_asEuint8 4)) (FHE_asEuint64 1000) cost3
      in cost4)"

text \<open>\<^verbatim>\<open>_placementStatus\<close>: the status is overridden step by step, last by \<open>canPlace\<close>.\<close>

definition placementStatus :: "ebool \<Rightarrow> ebool \<Rightarrow> ebool \<Rightarrow> ebool \<Rightarrow> euint8" where
  "placementStatus isValid isEmpty hasFunds canPlace =
     (let status0 = FHE_asEuint8 STATUS_SUCCESS;
          status1 = FHE_select8 (FHE_eqB isValid (FHE_asEbool False))
                      (FHE_asEuint8 STATUS_INVALID_BUILDING) status0;
          tileBlocked = FHE_and (FHE_eqB isValid (FHE_asEbool True))
                          (FHE_eqB isEmpty (FHE_asEbool False));
          status2 = FHE_select8 tileBlocked (FHE_asEuint8 STATUS_TILE_TAKEN) status1;
          fundsCheckRequired = FHE_and (FHE_eqB isValid (FHE_asEbool True))
                                 (FHE_eqB isEmpty (FHE_asEbool True));
          lacksFunds = FHE_and fundsCheckRequired (FHE_eqB hasFunds (FHE_asEbool False));
          status3 = FHE_select8 lacksFunds (FHE_asEuint8 STATUS_NO_FUNDS) status2;
          status4 = FHE_select8 canPlace (FHE_asEuint8 STATUS_SUCCESS) status3
      in status4)"

section \<open>Storage, access control and events\<close>

text \<open>
  A handle of either stored type, as the access-control list of the FHE library keys it.
\<close>

datatype handle = H8 euint8 | H64 euint64

datatype event = PlayerJoined address | BuildingPlaced address "8 word"

text \<open>
  The three errors of the contract, and the revert of \<^verbatim>\<open>FHE.fromExternal\<close> on an input
  that does not verify.
\<close>

datatype error = AlreadyJoined | NotJoined | InvalidPosition "8 word" | InputNotVerified

text \<open>
  The four mappings of the contract (\<^verbatim>\<open>_hasJoined\<close>, \<^verbatim>\<open>_balances\<close>, \<^verbatim>\<open>_buildings\<close>,
  \<^verbatim>\<open>_lastPlacementStatus\<close>), the pairs (handle, account) that \<^verbatim>\<open>FHE.allow\<close> and
  \<^verbatim>\<open>FHE.allowThis\<close> have granted so far, and the events emitted so far, latest last.
  A Solidity mapping is total: a key never written reads as the zero value.
\<close>

record state =
  s_hasJoined :: "address \<Rightarrow> bool"
  s_balances :: "address \<Rightarrow> euint64"
  s_buildings :: "address \<Rightarrow> 8 word \<Rightarrow> euint8"
  s_lastPlacementStatus :: "address \<Rightarrow> euint8"
  s_acl :: "(handle \<times> address) set"
  s_events :: "event list"

definition init_state :: state where
  "init_state =
     \<lparr>s_hasJoined = (\<lambda>a. False), s_balances = (\<lambda>a. Unset64),
      s_buildings = (\<lambda>a i. Unset8), s_lastPlacementStatus = (\<lambda>a. Unset8),
      s_acl = {}, s_events = []\<rparr>"

text \<open>
  The statements of the two mutating functions that have an effect: a write to one of the
  mappings, a grant, or an event. \<open>exec_stmt this s st\<close> is the state after statement
  \<open>st\<close>, in the contract deployed at address \<open>this\<close>.
\<close>

datatype stmt =
    Set_hasJoined address
  | Set_balances address euint64
  | Set_buildings address "8 word" euint8
  | Set_lastPlacementStatus address euint8
  | FHE_allowThis handle
  | FHE_allow handle address
  | Emit event

fun exec_stmt :: "address \<Rightarrow> state \<Rightarrow> stmt \<Rightarrow> state" where
  "exec_stmt this s (Set_hasJoined a) = s\<lparr>s_hasJoined := (s_hasJoined s)(a := True)\<rparr>"
| "exec_stmt this s (Set_balances a v) = s\<lparr>s_balances := (s_balances s)(a := v)\<rparr>"
| "exec_stmt this s (Set_buildings a i v) =
     s\<lparr>s_buildings := (s_buildings s)(a := (s_buildings s a)(i := v))\<rparr>"
| "exec_stmt this s (Set_lastPlacementStatus a v) =
     s\<lparr>s_lastPlacementStatus := (s_lastPlacementStatus s)(a := v)\<rparr>"
| "exec_stmt this s (FHE_allowThis h) = s\<lparr>s_acl := insert (h, this) (s_acl s)\<rparr>"
| "exec_stmt this s (FHE_allow h a) = s\<lparr>s_acl := insert (h, a) (s_acl s)\<rparr>"
| "exec_stmt this s (Emit e) = s\<lparr>s_events := s_events s @ [e]\<rparr>"

definition exec_stmts :: "address \<Rightarrow> state \<Rightarrow> stmt list \<Rightarrow> state" where
  "exec_stmts this s sts = foldl (exec_stmt this) s sts"

section \<open>joinGame\<close>

text \<open>
  The loop \<^verbatim>\<open>for (uint8 i = 0; i < GRID_SIZE; i++)\<close> of \<^verbatim>\<open>joinGame\<close>, from counter
  \<open>i\<close> on: each round stores the empty tile at slot \<open>i\<close> and then grants it.
\<close>

function joinGame_loop :: "address \<Rightarrow> euint8 \<Rightarrow> 8 word \<Rightarrow> stmt list" where
  "joinGame_loop sender emptyTile i =
     (if i < GRID_SIZE
      then [Set_buildings sender i emptyTile,
            FHE_allowThis (H8 emptyTile),
            FHE_allow (H8 emptyTile) sender] @ joinGame_loop sender emptyTile (i + 1)
      else [])"
  by pat_completeness auto
termination
proof (relation "measure (\<lambda>(sender, emptyTile, i). 9 - unat i)")
  show "wf (measure (\<lambda>(sender :: address, emptyTile :: euint8, i :: 8 word). 9 - unat i))"
    by simp
next
  fix sender :: address and emptyTile :: euint8 and i :: "8 word"
  assume "i < GRID_SIZE"
  then have lt: "unat i < 9"
    by (simp add: GRID_SIZE_def GRID_WIDTH_def word_less_nat_alt)
  then have "unat (i + 1) = unat i + 1"
    by (simp add: unat_word_ariths)
  with lt show "((sender, emptyTile, i + 1), (sender, emptyTile, i))
        \<in> measure (\<lambda>(sender, emptyTile, i). 9 - unat i)"
    by simp
qed

declare joinGame_loop.simps [simp del]

text \<open>The statements of \<^verbatim>\<open>joinGame\<close> after its check, in the order of the source.\<close>

definition joinGame_body :: "address \<Rightarrow> stmt list" where
  "joinGame_body sender =
     (let startingGold = FHE_asEuint64 STARTING_GOLD;
          emptyTile = FHE_asEuint8 0;
          status = FHE_asEuint8 STATUS_SUCCESS
      in [Set_hasJoined sender,
          Set_balances sender startingGold,
          FHE_allowThis (H64 startingGold),
          FHE_allow (H64 startingGold) sender]
         @ joinGame_loop sender emptyTile 0
         @ [Set_lastPlacementStatus sender status,
            FHE_allowThis (H8 status),
            FHE_allow (H8 status) sender,
            Emit (PlayerJoined sender)])"

definition joinGame :: "address \<Rightarrow> address \<Rightarrow> state \<Rightarrow> error + state" where
  "joinGame this sender s =
     (if s_hasJoined s sender then Inl AlreadyJoined
      else Inr (exec_stmts this s (joinGame_body sender)))"

section \<open>placeBuilding\<close>

text \<open>
  The statements of \<^verbatim>\<open>placeBuilding\<close> after its two checks and the verification of the
  input. The function reads the tile and the balance before its first write, so both are
  read from the state at entry.
\<close>

definition placeBuilding_body ::
  "state \<Rightarrow> address \<Rightarrow> 8 word \<Rightarrow> externalEuint8 \<Rightarrow> bytes \<Rightarrow> stmt list" where
  "placeBuilding_body s sender position buildingType inputProof =
     (let encryptedType = FHE_fromExternal buildingType inputProof;
          cost = buildingCost encryptedType;
          isValid = isValidBuilding encryptedType;
          existing = s_buildings s sender position;
          isEmpty = FHE_eq8 existing (FHE_asEuint8 0);
          balance = s_balances s sender;
          hasFunds = FHE_ge balance cost;
          canPlace = FHE_and isValid (FHE_and isEmpty hasFunds);
          resultingBuilding = FHE_select8 canPlace encryptedType existing;
          spend = FHE_select64 canPlace cost (FHE_asEuint64 0);
          updatedBalance = FHE_sub balance spend;
          status = placementStatus isValid isEmpty hasFunds canPlace
      in [Set_buildings sender position resultingBuilding,
          FHE_allowThis (H8 resultingBuilding),
          FHE_allow (H8 resultingBuilding) sender,
          Set_balances sender updatedBalance,
          FHE_allowThis (H64 updatedBalance),
          FHE_allow (H64 updatedBalance) sender,
          Set_lastPlacementStatus sender status,
          FHE_allowThis (H8 status),
          FHE_allow (H8 status) sender,
          Emit (BuildingPlaced sender position)])"

definition placeBuilding ::
  "address \<Rightarrow> address \<Rightarrow> 8 word \<Rightarrow> externalEuint8 \<Rightarrow> bytes \<Rightarrow> state \<Rightarrow> error + state" where
  "placeBuilding this sender position buildingType inputProof s =
     (if \<not> s_hasJoined s sender then Inl NotJoined
      else if GRID_SIZE \<le> position then Inl (InvalidPosition position)
      else if \<not> verifyInput this sender buildingType inputProof then Inl InputNotVerified
      else Inr (exec_stmts this s
                  (placeBuilding_body s sender position buildingType inputProof)))"

section \<open>Transactions\<close>

text \<open>
  A transaction is a call of one of the two mutating functions by a sender. A call that
  reverts leaves the storage as it was before the call.
\<close>

datatype call = JoinGame | PlaceBuilding "8 word" externalEuint8 bytes

fun invoke :: "address \<Rightarrow> address \<Rightarrow> call \<Rightarrow> state \<Rightarrow> error + state" where
  "invoke this sender JoinGame s = joinGame this sender s"
| "invoke this sender (PlaceBuilding position buildingType inputProof) s =
     placeBuilding this sender position buildingType inputProof s"

fun transact :: "address \<Rightarrow> state \<Rightarrow> address \<times> call \<Rightarrow> state" where
  "transact this s (sender, c) =
     (case invoke this sender c s of Inl e \<Rightarrow> s | Inr s' \<Rightarrow> s')"

declare transact.simps [simp del]

definition transact_all :: "address \<Rightarrow> state \<Rightarrow> (address \<times> call) list \<Rightarrow> state" where
  "transact_all this s txs = foldl (transact this) s txs"

section \<open>Derived notions used by the properties\<close>

text \<open>
  The cost of a plaintext building type, as \<^verbatim>\<open>_buildingCost\<close> computes it on an
  encryption of that type.
\<close>

definition cost_of :: "8 word \<Rightarrow> 64 word" where
  "cost_of t = decrypt64 (buildingCost (FHE_asEuint8 t))"

text \<open>
  \<open>granted_at_store this s st\<close>: if \<open>st\<close> writes an encrypted value into the account of
  a player, then in the state \<open>s\<close> in which \<open>st\<close> starts, that value is already granted
  to the player and to the contract. \<open>grants_precede_stores\<close> asks this of every statement
  of a list, each in the state that the statements before it have produced.
\<close>

fun granted_at_store :: "address \<Rightarrow> state \<Rightarrow> stmt \<Rightarrow> bool" where
  "granted_at_store this s (Set_balances a v) =
     ((H64 v, a) \<in> s_acl s \<and> (H64 v, this) \<in> s_acl s)"
| "granted_at_store this s (Set_buildings a i v) =
     ((H8 v, a) \<in> s_acl s \<and> (H8 v, this) \<in> s_acl s)"
| "granted_at_store this s (Set_lastPlacementStatus a v) =
     ((H8 v, a) \<in> s_acl s \<and> (H8 v, this) \<in> s_acl s)"
| "granted_at_store this s (Set_hasJoined a) = True"
| "granted_at_store this s (FHE_allowThis h) = True"
| "granted_at_store this s (FHE_allow h a) = True"
| "granted_at_store this s (Emit e) = True"

fun grants_precede_stores :: "address \<Rightarrow> state \<Rightarrow> stmt list \<Rightarrow> bool" where
  "grants_precede_stores this s [] = True"
| "grants_precede_stores this s (st # sts) =
     (granted_at_store this s st \<and> grants_precede_stores this (exec_stmt this s st) sts)"

text \<open>
  \<open>account_granted this s p\<close>: in state \<open>s\<close>, the balance, the nine tiles and the last
  status stored for player \<open>p\<close> are each granted to \<open>p\<close> and to the contract.
\<close>

definition account_granted :: "address \<Rightarrow> state \<Rightarrow> address \<Rightarrow> bool" where
  "account_granted this s p =
     ((H64 (s_balances s p), p) \<in> s_acl s \<and> (H64 (s_balances s p), this) \<in> s_acl s \<and>
      (\<forall>i \<in> {0, 1, 2, 3, 4, 5, 6, 7, 8}.
         (H8 (s_buildings s p i), p) \<in> s_acl s \<and> (H8 (s_buildings s p i), this) \<in> s_acl s) \<and>
      (H8 (s_lastPlacementStatus s p), p) \<in> s_acl s \<and>
      (H8 (s_lastPlacementStatus s p), this) \<in> s_acl s)"

section \<open>Plaintext meaning of the internal functions\<close>

lemma decrypt_isValidBuilding:
  "decryptB (isValidBuilding bt) = (decrypt8 bt \<in> {1, 2, 3, 4})"
  by (simp add: isValidBuilding_def Let_def)

lemma decrypt_buildingCost:
  "decrypt64 (buildingCost bt) =
     (if decrypt8 bt = 1 then 100 else if decrypt8 bt = 2 then 200
      else if decrypt8 bt = 3 then 400 else if decrypt8 bt = 4 then 1000 else 0)"
  by (simp add: buildingCost_def Let_def)

lemma decrypt_placementStatus:
  "decrypt8 (placementStatus isValid isEmpty hasFunds canPlace) =
     (if decryptB canPlace then STATUS_SUCCESS
      else if \<not> decryptB isValid then STATUS_INVALID_BUILDING
      else if \<not> decryptB isEmpty then STATUS_TILE_TAKEN
      else if \<not> decryptB hasFunds then STATUS_NO_FUNDS
      else STATUS_SUCCESS)"
  by (simp add: placementStatus_def Let_def)

section \<open>Effects of the two functions\<close>

lemma GRID_SIZE_eq: "GRID_SIZE = 9"
  by (simp add: GRID_SIZE_def GRID_WIDTH_def)

lemma cost_of_decrypt: "decrypt64 (buildingCost bt) = cost_of (decrypt8 bt)"
  by (simp add: cost_of_def decrypt_buildingCost)

lemma place_hasJoined:
  "s_hasJoined (exec_stmts this s (placeBuilding_body s sender pos bt pr)) = s_hasJoined s"
  by (simp add: exec_stmts_def placeBuilding_body_def Let_def)

lemma place_buildings_other:
  "a \<noteq> sender \<or> i \<noteq> pos \<Longrightarrow>
   s_buildings (exec_stmts this s (placeBuilding_body s sender pos bt pr)) a i = s_buildings s a i"
  by (auto simp add: exec_stmts_def placeBuilding_body_def Let_def)

lemma place_balances_other:
  "a \<noteq> sender \<Longrightarrow>
   s_balances (exec_stmts this s (placeBuilding_body s sender pos bt pr)) a = s_balances s a"
  by (simp add: exec_stmts_def placeBuilding_body_def Let_def)

lemma place_status_other:
  "a \<noteq> sender \<Longrightarrow>
   s_lastPlacementStatus (exec_stmts this s (placeBuilding_body s sender pos bt pr)) a =
   s_lastPlacementStatus s a"
  by (simp add: exec_stmts_def placeBuilding_body_def Let_def)

lemma place_tile_plain:
  "decrypt8 (s_buildings (exec_stmts this s (placeBuilding_body s sender pos bt pr)) sender pos) =
     (if ext_plain bt \<in> {1, 2, 3, 4} \<and> decrypt8 (s_buildings s sender pos) = 0 \<and>
         cost_of (ext_plain bt) \<le> decrypt64 (s_balances s sender)
      then ext_plain bt else decrypt8 (s_buildings s sender pos))"
  by (auto simp add: exec_stmts_def placeBuilding_body_def Let_def decrypt_isValidBuilding
      cost_of_decrypt)

lemma place_balance_plain:
  "decrypt64 (s_balances (exec_stmts this s (placeBuilding_body s sender pos bt pr)) sender) =
     (if ext_plain bt \<in> {1, 2, 3, 4} \<and> decrypt8 (s_buildings s sender pos) = 0 \<and>
         cost_of (ext_plain bt) \<le> decrypt64 (s_balances s sender)
      then decrypt64 (s_balances s sender) - cost_of (ext_plain bt)
      else decrypt64 (s_balances s sender))"
  by (auto simp add: exec_stmts_def placeBuilding_body_def Let_def decrypt_isValidBuilding
      cost_of_decrypt)

lemma place_status_plain:
  "decrypt8 (s_lastPlacementStatus (exec_stmts this s (placeBuilding_body s sender pos bt pr)) sender) =
     (if ext_plain bt \<notin> {1, 2, 3, 4} then STATUS_INVALID_BUILDING
      else if decrypt8 (s_buildings s sender pos) \<noteq> 0 then STATUS_TILE_TAKEN
      else if \<not> cost_of (ext_plain bt) \<le> decrypt64 (s_balances s sender) then STATUS_NO_FUNDS
      else STATUS_SUCCESS)"
  by (simp add: exec_stmts_def placeBuilding_body_def Let_def decrypt_isValidBuilding
      cost_of_decrypt decrypt_placementStatus)

lemma placeBuilding_Inr:
  "placeBuilding this sender pos bt pr s = Inr s' \<longleftrightarrow>
     s_hasJoined s sender \<and> pos < GRID_SIZE \<and> verifyInput this sender bt pr \<and>
     s' = exec_stmts this s (placeBuilding_body s sender pos bt pr)"
  by (auto simp add: placeBuilding_def not_le)

lemma position_cases:
  "(p :: 8 word) < 9 \<longleftrightarrow> p \<in> {0, 1, 2, 3, 4, 5, 6, 7, 8}"
proof
  assume "p < 9"
  then have "unat p < 9" by (simp add: word_less_nat_alt)
  then have "unat p \<in> {0, 1, 2, 3, 4, 5, 6, 7, 8}" by auto
  then show "p \<in> {0, 1, 2, 3, 4, 5, 6, 7, 8}"
    by (auto simp: word_unat_eq_iff)
next
  assume "p \<in> {0, 1, 2, 3, 4, 5, 6, 7, 8}"
  then show "p < 9" by auto
qed

lemma joinGame_loop_unrolled:
  "joinGame_loop sender e 0 =
     concat (map (\<lambda>i. [Set_buildings sender i e, FHE_allowThis (H8 e), FHE_allow (H8 e) sender])
       [0, 1, 2, 3, 4, 5, 6, 7, 8])"
  by (simp add: joinGame_loop.simps GRID_SIZE_eq)

lemma joinGame_Inr:
  "joinGame this sender s = Inr s' \<longleftrightarrow>
     \<not> s_hasJoined s sender \<and> s' = exec_stmts this s (joinGame_body sender)"
  by (auto simp add: joinGame_def)

lemma join_hasJoined:
  "s_hasJoined (exec_stmts this s (joinGame_body sender)) = (s_hasJoined s)(sender := True)"
  by (simp add: exec_stmts_def joinGame_body_def Let_def joinGame_loop_unrolled)

lemma join_balances:
  "s_balances (exec_stmts this s (joinGame_body sender)) =
     (s_balances s)(sender := FHE_asEuint64 STARTING_GOLD)"
  by (simp add: exec_stmts_def joinGame_body_def Let_def joinGame_loop_unrolled)

lemma join_status:
  "s_lastPlacementStatus (exec_stmts this s (joinGame_body sender)) =
     (s_lastPlacementStatus s)(sender := FHE_asEuint8 STATUS_SUCCESS)"
  by (simp add: exec_stmts_def joinGame_body_def Let_def joinGame_loop_unrolled)

lemma join_buildings_other:
  "a \<noteq> sender \<Longrightarrow>
   s_buildings (exec_stmts this s (joinGame_body sender)) a = s_buildings s a"
  by (simp add: exec_stmts_def joinGame_body_def Let_def joinGame_loop_unrolled)

lemma join_buildings_self:
  "i < GRID_SIZE \<Longrightarrow>
   s_buildings (exec_stmts this s (joinGame_body sender)) sender i = FHE_asEuint8 0"
  by (auto simp add: exec_stmts_def joinGame_body_def Let_def joinGame_loop_unrolled
      GRID_SIZE_eq position_cases)

lemma transact_all_Nil: "transact_all this s [] = s"
  by (simp add: transact_all_def)

lemma transact_all_Cons:
  "transact_all this s (tx # txs) = transact_all this (transact this s tx) txs"
  by (simp add: transact_all_def)

lemma transact_all_snoc:
  "transact_all this s (txs @ [tx]) = transact this (transact_all this s txs) tx"
  by (simp add: transact_all_def)

lemma joined_state:
  "transact_all this init_state [(a, JoinGame)] = exec_stmts this init_state (joinGame_body a)"
  by (simp add: transact_all_def transact.simps joinGame_def init_state_def)

lemma transact_place:
  "transact this s (sender, PlaceBuilding pos bt pr) =
     (if s_hasJoined s sender \<and> pos < GRID_SIZE \<and> verifyInput this sender bt pr
      then exec_stmts this s (placeBuilding_body s sender pos bt pr) else s)"
  by (auto simp add: transact.simps placeBuilding_def not_le)

lemma transact_join:
  "transact this s (sender, JoinGame) =
     (if s_hasJoined s sender then s else exec_stmts this s (joinGame_body sender))"
  by (simp add: transact.simps joinGame_def)



lemma word_sub_uint: "(c :: 64 word) \<le> b \<Longrightarrow> uint (b - c) = uint b - uint c"
  by (simp add: uint_minus_simple_alt)

lemma cost_of_table:
  "cost_of t = (if t = 1 then 100 else if t = 2 then 200
      else if t = 3 then 400 else if t = 4 then 1000 else 0)"
  by (simp add: cost_of_def decrypt_buildingCost)

lemma placeBuilding_transact:
  "s_hasJoined s sender \<Longrightarrow> pos < GRID_SIZE \<Longrightarrow> verifyInput this sender bt pr \<Longrightarrow>
   placeBuilding this sender pos bt pr s = Inr (transact this s (sender, PlaceBuilding pos bt pr))"
  by (simp add: transact_place placeBuilding_def)

lemma joined_state_facts:
  "s_hasJoined (transact_all this init_state [(a, JoinGame)]) a"
  "i < GRID_SIZE \<Longrightarrow> decrypt8 (s_buildings (transact_all this init_state [(a, JoinGame)]) a i) = 0"
  "decrypt64 (s_balances (transact_all this init_state [(a, JoinGame)]) a) = 10000"
  by (simp_all add: joined_state join_hasJoined join_buildings_self join_balances STARTING_GOLD_def)

lemma position_outside: "(GRID_SIZE \<le> position) = (8 < unat position)"
  by (simp add: GRID_SIZE_eq word_le_nat_alt) arith

lemma transact_joined_kept:
  "s_hasJoined s p \<Longrightarrow> s_hasJoined (transact this s tx) p"
  by (cases tx; cases "snd tx")
    (simp_all add: transact_join transact_place join_hasJoined place_hasJoined)

lemma transact_tile_kept:
  assumes "s_hasJoined s owner" and "decrypt8 (s_buildings s owner p) \<noteq> 0"
  shows "decrypt8 (s_buildings (transact this s tx) owner p) = decrypt8 (s_buildings s owner p)"
proof (cases tx)
  case (Pair a c)
  show ?thesis
  proof (cases c)
    case JoinGame
    with Pair assms show ?thesis
      by (cases "a = owner") (simp_all add: transact_join join_buildings_other)
  next
    case (PlaceBuilding pos bt pr)
    show ?thesis
    proof (cases "a = owner \<and> pos = p")
      case True
      with Pair PlaceBuilding assms show ?thesis
        by (simp add: transact_place place_tile_plain)
    next
      case False
      then have "owner \<noteq> a \<or> p \<noteq> pos" by auto
      from place_buildings_other [OF this] Pair PlaceBuilding show ?thesis
        by (simp add: transact_place)
    qed
  qed
qed

lemma placed_state_facts:
  "s_hasJoined (transact_all this init_state
      [(a, JoinGame), (a, PlaceBuilding 4 (ExternalEuint8 h 2 this a pr) pr)]) a"
  "decrypt8 (s_buildings (transact_all this init_state
      [(a, JoinGame), (a, PlaceBuilding 4 (ExternalEuint8 h 2 this a pr) pr)]) a 4) = 2"
  "decrypt64 (s_balances (transact_all this init_state
      [(a, JoinGame), (a, PlaceBuilding 4 (ExternalEuint8 h 2 this a pr) pr)]) a) = 9800"
proof -
  let ?J = "transact_all this init_state [(a, JoinGame)]"
  have eq: "transact_all this init_state
      [(a, JoinGame), (a, PlaceBuilding 4 (ExternalEuint8 h 2 this a pr) pr)] =
      exec_stmts this ?J (placeBuilding_body ?J a 4 (ExternalEuint8 h 2 this a pr) pr)"
    using transact_all_snoc [of this init_state "[(a, JoinGame)]"
        "(a, PlaceBuilding 4 (ExternalEuint8 h 2 this a pr) pr)"]
    by (simp add: transact_place joined_state_facts GRID_SIZE_eq verifyInput_def)
  have tile: "decrypt8 (s_buildings ?J a 4) = 0"
    by (simp add: joined_state_facts GRID_SIZE_eq)
  show "s_hasJoined (transact_all this init_state
      [(a, JoinGame), (a, PlaceBuilding 4 (ExternalEuint8 h 2 this a pr) pr)]) a"
    unfolding eq by (simp add: place_hasJoined joined_state_facts)
  show "decrypt8 (s_buildings (transact_all this init_state
      [(a, JoinGame), (a, PlaceBuilding 4 (ExternalEuint8 h 2 this a pr) pr)]) a 4) = 2"
    unfolding eq place_tile_plain by (simp add: tile joined_state_facts cost_of_table)
  show "decrypt64 (s_balances (transact_all this init_state
      [(a, JoinGame), (a, PlaceBuilding 4 (ExternalEuint8 h 2 this a pr) pr)]) a) = 9800"
    unfolding eq place_balance_plain by (simp add: tile joined_state_facts cost_of_table)
qed

lemma reachable_induct:
  assumes "P init_state" and "\<And>s tx. P s \<Longrightarrow> P (transact this s tx)"
  shows "P (transact_all this init_state txs)"
proof (induction txs rule: rev_induct)
  case Nil
  show ?case by (simp add: transact_all_Nil assms(1))
next
  case (snoc tx txs)
  then show ?case by (simp add: transact_all_snoc assms(2))
qed

lemma tile_range_step:
  assumes inv: "\<forall>p i. s_hasJoined s p \<and> i < GRID_SIZE \<longrightarrow>
                  decrypt8 (s_buildings s p i) \<in> {0, 1, 2, 3, 4}"
  shows "\<forall>p i. s_hasJoined (transact this s tx) p \<and> i < GRID_SIZE \<longrightarrow>
            decrypt8 (s_buildings (transact this s tx) p i) \<in> {0, 1, 2, 3, 4}"
proof (intro allI impI)
  fix p i
  assume h: "s_hasJoined (transact this s tx) p \<and> i < GRID_SIZE"
  obtain a c where tx: "tx = (a, c)" by (cases tx)
  show "decrypt8 (s_buildings (transact this s tx) p i) \<in> {0, 1, 2, 3, 4}"
  proof (cases c)
    case JoinGame
    show ?thesis
    proof (cases "s_hasJoined s a")
      case True
      with h inv tx JoinGame show ?thesis by (auto simp add: transact_join)
    next
      case False
      show ?thesis
      proof (cases "p = a")
        case True
        with False h tx JoinGame show ?thesis
          by (simp add: transact_join join_buildings_self)
      next
        case ne: False
        with False h tx JoinGame have "s_hasJoined s p"
          by (simp add: transact_join join_hasJoined)
        with ne False h inv tx JoinGame show ?thesis
          by (simp add: transact_join join_buildings_other)
      qed
    qed
  next
    case (PlaceBuilding pos bt pr)
    show ?thesis
    proof (cases "s_hasJoined s a \<and> pos < GRID_SIZE \<and> verifyInput this a bt pr")
      case False
      with h inv tx PlaceBuilding show ?thesis by (auto simp add: transact_place)
    next
      case True
      with h tx PlaceBuilding have j: "s_hasJoined s p"
        by (simp add: transact_place place_hasJoined)
      with h inv have old: "decrypt8 (s_buildings s p i) \<in> {0, 1, 2, 3, 4}" by blast
      show ?thesis
      proof (cases "p = a \<and> i = pos")
        case same: True
        with True tx PlaceBuilding old show ?thesis
          by (auto simp add: transact_place place_tile_plain)
      next
        case False
        then have "p \<noteq> a \<or> i \<noteq> pos" by auto
        from place_buildings_other [OF this] True tx PlaceBuilding old show ?thesis
          by (simp add: transact_place)
      qed
    qed
  qed
qed

lemma word64_sub_le: "(c :: 64 word) \<le> b \<Longrightarrow> b - c \<le> b"
  by (simp add: word_sub_le)

lemma balance_bound_step:
  assumes inv: "\<forall>p. s_hasJoined s p \<longrightarrow> decrypt64 (s_balances s p) \<le> 10000"
  shows "\<forall>p. s_hasJoined (transact this s tx) p \<longrightarrow>
           decrypt64 (s_balances (transact this s tx) p) \<le> 10000"
proof (intro allI impI)
  fix p
  assume h: "s_hasJoined (transact this s tx) p"
  obtain a c where tx: "tx = (a, c)" by (cases tx)
  show "decrypt64 (s_balances (transact this s tx) p) \<le> 10000"
  proof (cases c)
    case JoinGame
    with h inv tx show ?thesis
      by (auto simp add: transact_join join_hasJoined join_balances STARTING_GOLD_def
          split: if_splits)
  next
    case (PlaceBuilding pos bt pr)
    show ?thesis
    proof (cases "s_hasJoined s a \<and> pos < GRID_SIZE \<and> verifyInput this a bt pr")
      case False
      with h inv tx PlaceBuilding show ?thesis by (auto simp add: transact_place)
    next
      case True
      with h tx PlaceBuilding have "s_hasJoined s p"
        by (simp add: transact_place place_hasJoined)
      with inv have old: "decrypt64 (s_balances s p) \<le> 10000" by blast
      show ?thesis
      proof (cases "p = a")
        case same: True
        have "decrypt64 (s_balances (exec_stmts this s (placeBuilding_body s a pos bt pr)) a)
              \<le> decrypt64 (s_balances s a)"
          unfolding place_balance_plain by (simp add: word64_sub_le)
        with old same True tx PlaceBuilding show ?thesis
          by (simp add: transact_place)
      next
        case False
        from place_balances_other [OF this] True tx PlaceBuilding old show ?thesis
          by (simp add: transact_place)
      qed
    qed
  qed
qed

lemma transact_acl_mono: "s_acl s \<subseteq> s_acl (transact this s tx)"
proof (cases tx)
  case (Pair a c)
  then show ?thesis
    by (cases c)
      (auto simp add: transact_join transact_place exec_stmts_def joinGame_body_def
        placeBuilding_body_def Let_def joinGame_loop_unrolled)
qed

lemma account_granted_mono:
  assumes "account_granted this s p" and "s_acl s \<subseteq> s_acl s'"
    and "s_balances s' p = s_balances s p" and "s_buildings s' p = s_buildings s p"
    and "s_lastPlacementStatus s' p = s_lastPlacementStatus s p"
  shows "account_granted this s' p"
  using assms unfolding account_granted_def by auto

lemma join_granted:
  "account_granted this (exec_stmts this s (joinGame_body a)) a"
  unfolding account_granted_def
  by (simp add: exec_stmts_def joinGame_body_def Let_def joinGame_loop_unrolled)

lemma place_granted:
  assumes "account_granted this s a"
  shows "account_granted this (exec_stmts this s (placeBuilding_body s a pos bt pr)) a"
  using assms unfolding account_granted_def
  by (simp add: exec_stmts_def placeBuilding_body_def Let_def)

lemma transact_frame:
  assumes "A \<noteq> B"
  shows "s_hasJoined (transact this s (A, c)) B = s_hasJoined s B \<and>
         s_balances (transact this s (A, c)) B = s_balances s B \<and>
         s_buildings (transact this s (A, c)) B = s_buildings s B \<and>
         s_lastPlacementStatus (transact this s (A, c)) B = s_lastPlacementStatus s B"
proof (cases c)
  case JoinGame
  with assms show ?thesis
    by (simp add: transact_join join_hasJoined join_balances join_status join_buildings_other)
next
  case (PlaceBuilding pos bt pr)
  have "s_buildings (exec_stmts this s (placeBuilding_body s A pos bt pr)) B = s_buildings s B"
    using assms by (intro ext place_buildings_other) simp
  with assms PlaceBuilding show ?thesis
    by (simp add: transact_place place_hasJoined place_balances_other place_status_other)
qed

lemma granted_step:
  assumes inv: "\<forall>p. s_hasJoined s p \<longrightarrow> account_granted this s p"
  shows "\<forall>p. s_hasJoined (transact this s tx) p \<longrightarrow> account_granted this (transact this s tx) p"
proof (intro allI impI)
  fix p
  assume h: "s_hasJoined (transact this s tx) p"
  obtain a c where tx: "tx = (a, c)" by (cases tx)
  show "account_granted this (transact this s tx) p"
  proof (cases "invoke this a c s")
    case (Inl e)
    with h inv tx show ?thesis by (simp add: transact.simps)
  next
    case (Inr s')
    then have t: "transact this s tx = s'" by (simp add: tx transact.simps)
    show ?thesis
    proof (cases "p = a")
      case True
      show ?thesis
      proof (cases c)
        case JoinGame
        with Inr True show ?thesis
          unfolding t by (auto simp add: joinGame_Inr join_granted)
      next
        case (PlaceBuilding pos bt pr)
        with Inr inv True show ?thesis
          unfolding t by (auto simp add: placeBuilding_Inr place_granted)
      qed
    next
      case False
      then have ne: "a \<noteq> p" by simp
      note iso = transact_frame [OF ne, of this s c]
      from h iso have "s_hasJoined s p" by (simp add: tx)
      with inv have g: "account_granted this s p" by blast
      from iso show ?thesis
        by (intro account_granted_mono [OF g transact_acl_mono]) (simp_all add: tx)
    qed
  qed
qed

section \<open>The status code\<close>

text \<open>
  Claim C2. For every combination of the three booleans \<open>isValid\<close>, \<open>isEmpty\<close> and
  \<open>hasFunds\<close>, with \<open>canPlace\<close> their conjunction as \<^verbatim>\<open>placeBuilding\<close> computes it, the
  status that \<^verbatim>\<open>_placementStatus\<close> produces decrypts to 0 (success) when all three hold, to 1
  (invalid building) when \<open>isValid\<close> is false, to 2 (tile taken) when \<open>isValid\<close> holds and
  \<open>isEmpty\<close> does not, and to 3 (insufficient funds) when only \<open>hasFunds\<close> fails. The
  status is success exactly when \<open>canPlace\<close> is true.
\<close>

theorem placementStatus_precedence:
  "decrypt8 (placementStatus isValid isEmpty hasFunds
      (FHE_and isValid (FHE_and isEmpty hasFunds))) =
     (if decryptB isValid \<and> decryptB isEmpty \<and> decryptB hasFunds then 0
      else if \<not> decryptB isValid then 1
      else if \<not> decryptB isEmpty then 2
      else 3) \<and>
   (decrypt8 (placementStatus isValid isEmpty hasFunds
      (FHE_and isValid (FHE_and isEmpty hasFunds))) = STATUS_SUCCESS) =
     (decryptB isValid \<and> decryptB isEmpty \<and> decryptB hasFunds)"
  by (simp add: decrypt_placementStatus STATUS_SUCCESS_def STATUS_INVALID_BUILDING_def
      STATUS_TILE_TAKEN_def STATUS_NO_FUNDS_def)

section \<open>The building catalog\<close>

text \<open>
  Claim C3. For every building type, the validity predicate decrypts to true exactly when
  the plaintext type is one of 1, 2, 3, 4; the cost decrypts to 100, 200, 400, 1000 for
  these types and to 0 for every other type; and a call of \<^verbatim>\<open>placeBuilding\<close> with a type
  outside 1 to 4 is never accepted, although its cost is 0: the tile and the balance keep
  their plaintexts and the status is that of an invalid building.
\<close>

theorem building_catalog:
  "decryptB (isValidBuilding bt) = (decrypt8 bt \<in> {1, 2, 3, 4}) \<and>
   decrypt64 (buildingCost bt) =
     (if decrypt8 bt = 1 then 100 else if decrypt8 bt = 2 then 200
      else if decrypt8 bt = 3 then 400 else if decrypt8 bt = 4 then 1000 else 0) \<and>
   (ext_plain c \<notin> {1, 2, 3, 4} \<and> placeBuilding this sender position c inputProof s = Inr s' \<longrightarrow>
      decrypt8 (s_buildings s' sender position) = decrypt8 (s_buildings s sender position) \<and>
      decrypt64 (s_balances s' sender) = decrypt64 (s_balances s sender) \<and>
      decrypt8 (s_lastPlacementStatus s' sender) = STATUS_INVALID_BUILDING)"
proof (intro conjI impI)
  show "decryptB (isValidBuilding bt) = (decrypt8 bt \<in> {1, 2, 3, 4})"
    by (rule decrypt_isValidBuilding)
  show "decrypt64 (buildingCost bt) =
     (if decrypt8 bt = 1 then 100 else if decrypt8 bt = 2 then 200
      else if decrypt8 bt = 3 then 400 else if decrypt8 bt = 4 then 1000 else 0)"
    by (rule decrypt_buildingCost)
next
  assume h: "ext_plain c \<notin> {1, 2, 3, 4} \<and>
    placeBuilding this sender position c inputProof s = Inr s'"
  then have s': "s' = exec_stmts this s (placeBuilding_body s sender position c inputProof)"
    by (simp add: placeBuilding_Inr)
  from h show "decrypt8 (s_buildings s' sender position) = decrypt8 (s_buildings s sender position)"
    unfolding s' place_tile_plain by simp
  from h show "decrypt64 (s_balances s' sender) = decrypt64 (s_balances s sender)"
    unfolding s' place_balance_plain by simp
  from h show "decrypt8 (s_lastPlacementStatus s' sender) = STATUS_INVALID_BUILDING"
    unfolding s' place_status_plain by simp
qed

theorem building_catalog_witness:
  "decryptB (isValidBuilding (FHE_asEuint8 5)) = False \<and>
   decrypt64 (buildingCost (FHE_asEuint8 5)) = 0 \<and>
   ext_plain (ExternalEuint8 7 5 99 1 [7]) \<notin> {1, 2, 3, 4} \<and>
   placeBuilding 99 1 0 (ExternalEuint8 7 5 99 1 [7]) [7] (transact_all 99 init_state [(1, JoinGame)]) =
     Inr (transact 99 (transact_all 99 init_state [(1, JoinGame)])
            (1, PlaceBuilding 0 (ExternalEuint8 7 5 99 1 [7]) [7])) \<and>
   decrypt8 (s_buildings (transact 99 (transact_all 99 init_state [(1, JoinGame)])
            (1, PlaceBuilding 0 (ExternalEuint8 7 5 99 1 [7]) [7])) 1 0) = 0 \<and>
   decrypt64 (s_balances (transact 99 (transact_all 99 init_state [(1, JoinGame)])
            (1, PlaceBuilding 0 (ExternalEuint8 7 5 99 1 [7]) [7])) 1) = 10000 \<and>
   decrypt8 (s_lastPlacementStatus (transact 99 (transact_all 99 init_state [(1, JoinGame)])
            (1, PlaceBuilding 0 (ExternalEuint8 7 5 99 1 [7]) [7])) 1) = 1"
proof -
  let ?J = "transact_all 99 init_state [(1, JoinGame)]"
  have p: "placeBuilding 99 1 0 (ExternalEuint8 7 5 99 1 [7]) [7] ?J =
      Inr (transact 99 ?J (1, PlaceBuilding 0 (ExternalEuint8 7 5 99 1 [7]) [7]))"
    by (rule placeBuilding_transact) (simp_all add: joined_state_facts GRID_SIZE_eq verifyInput_def)
  have tile: "decrypt8 (s_buildings ?J 1 0) = 0"
    by (simp add: joined_state_facts GRID_SIZE_eq)
  note bal = joined_state_facts(3) [of 99 1]
  from building_catalog [of "FHE_asEuint8 5" "ExternalEuint8 7 5 99 1 [7]" 99 1 0 "[7]" ?J
      "transact 99 ?J (1, PlaceBuilding 0 (ExternalEuint8 7 5 99 1 [7]) [7])"]
  show ?thesis
    using p by (simp add: tile bal STATUS_INVALID_BUILDING_def)
qed

section \<open>Outcome of a placement\<close>



section \<open>Structural errors\<close>

text \<open>
  Claim C5, as stated: \<^verbatim>\<open>placeBuilding\<close> reverts exactly when the caller has not joined or
  the position is outside 0 to 8, and no other input makes it fail. The call also reverts
  when \<^verbatim>\<open>FHE.fromExternal\<close> does not accept the encrypted input: here a joined caller, at
  position 0, sends an input with a proof that is not its own, and then an input that was
  encrypted for another user.
\<close>

theorem placeBuilding_input_counterexample:
  "s_hasJoined (transact_all 99 init_state [(1, JoinGame)]) 1 \<and>
   \<not> 8 < unat (0 :: 8 word) \<and>
   placeBuilding 99 1 0 (ExternalEuint8 7 2 99 1 [7]) [8]
     (transact_all 99 init_state [(1, JoinGame)]) = Inl InputNotVerified \<and>
   placeBuilding 99 1 0 (ExternalEuint8 7 2 99 2 [7]) [7]
     (transact_all 99 init_state [(1, JoinGame)]) = Inl InputNotVerified"
  by (simp add: placeBuilding_def joined_state_facts GRID_SIZE_eq verifyInput_def)

text \<open>
  Claim C5, amended. \<^verbatim>\<open>joinGame\<close> reverts, with \<open>AlreadyJoined\<close>, exactly when the caller
  has already joined. \<^verbatim>\<open>placeBuilding\<close> reverts exactly when the caller has not joined
  (\<open>NotJoined\<close>), or the position is outside 0 to 8 (\<open>InvalidPosition\<close>), or the encrypted
  input does not verify for this contract, this caller and the proof sent with it; the
  three checks are made in this order, the join flag first. A call that reverts leaves the
  whole state as it was. No other input makes either function fail.
\<close>

theorem structural_errors:
  "(joinGame this sender s = Inl AlreadyJoined) = s_hasJoined s sender \<and>
   isl (joinGame this sender s) = s_hasJoined s sender \<and>
   (placeBuilding this sender position buildingType inputProof s = Inl NotJoined) =
     (\<not> s_hasJoined s sender) \<and>
   (placeBuilding this sender position buildingType inputProof s = Inl (InvalidPosition position)) =
     (s_hasJoined s sender \<and> 8 < unat position) \<and>
   (placeBuilding this sender position buildingType inputProof s = Inl InputNotVerified) =
     (s_hasJoined s sender \<and> \<not> 8 < unat position \<and>
      \<not> verifyInput this sender buildingType inputProof) \<and>
   isl (placeBuilding this sender position buildingType inputProof s) =
     (\<not> s_hasJoined s sender \<or> 8 < unat position \<or>
      \<not> verifyInput this sender buildingType inputProof) \<and>
   (isl (invoke this sender c s) \<longrightarrow> transact this s (sender, c) = s)"
proof (intro conjI impI)
  show "(joinGame this sender s = Inl AlreadyJoined) = s_hasJoined s sender"
    by (simp add: joinGame_def)
  show "isl (joinGame this sender s) = s_hasJoined s sender"
    by (simp add: joinGame_def)
  show "(placeBuilding this sender position buildingType inputProof s = Inl NotJoined) =
     (\<not> s_hasJoined s sender)"
    by (simp add: placeBuilding_def)
  show "(placeBuilding this sender position buildingType inputProof s =
      Inl (InvalidPosition position)) = (s_hasJoined s sender \<and> 8 < unat position)"
    by (simp add: placeBuilding_def position_outside)
  show "(placeBuilding this sender position buildingType inputProof s = Inl InputNotVerified) =
     (s_hasJoined s sender \<and> \<not> 8 < unat position \<and>
      \<not> verifyInput this sender buildingType inputProof)"
    by (simp add: placeBuilding_def position_outside)
  show "isl (placeBuilding this sender position buildingType inputProof s) =
     (\<not> s_hasJoined s sender \<or> 8 < unat position \<or>
      \<not> verifyInput this sender buildingType inputProof)"
    by (simp add: placeBuilding_def position_outside)
next
  assume "isl (invoke this sender c s)"
  then show "transact this s (sender, c) = s"
    by (cases "invoke this sender c s") (simp_all add: transact.simps)
qed

theorem structural_errors_witness:
  "isl (invoke 99 1 (PlaceBuilding 9 (ExternalEuint8 7 2 99 1 [7]) [7])
         (transact_all 99 init_state [(1, JoinGame)])) \<and>
   placeBuilding 99 1 9 (ExternalEuint8 7 2 99 1 [7]) [7]
       (transact_all 99 init_state [(1, JoinGame)]) = Inl (InvalidPosition 9) \<and>
   transact 99 (transact_all 99 init_state [(1, JoinGame)])
     (1, PlaceBuilding 9 (ExternalEuint8 7 2 99 1 [7]) [7]) =
     transact_all 99 init_state [(1, JoinGame)] \<and>
   joinGame 99 1 (transact_all 99 init_state [(1, JoinGame)]) = Inl AlreadyJoined \<and>
   placeBuilding 99 2 0 (ExternalEuint8 7 2 99 2 [7]) [7]
       (transact_all 99 init_state [(1, JoinGame)]) = Inl NotJoined \<and>
   placeBuilding 99 1 0 (ExternalEuint8 7 2 99 1 [7]) [8]
       (transact_all 99 init_state [(1, JoinGame)]) = Inl InputNotVerified \<and>
   \<not> isl (placeBuilding 99 1 0 (ExternalEuint8 7 2 99 1 [7]) [7]
       (transact_all 99 init_state [(1, JoinGame)]))"
proof -
  let ?J = "transact_all 99 init_state [(1, JoinGame)]"
  have j: "s_hasJoined ?J 1" "\<not> s_hasJoined ?J 2"
    by (simp_all add: joined_state join_hasJoined) (simp add: init_state_def)
  from structural_errors [of 99 1 ?J 9 "ExternalEuint8 7 2 99 1 [7]" "[7]"
      "PlaceBuilding 9 (ExternalEuint8 7 2 99 1 [7]) [7]"]
    structural_errors [of 99 2 ?J 0 "ExternalEuint8 7 2 99 2 [7]" "[7]" JoinGame]
    structural_errors [of 99 1 ?J 0 "ExternalEuint8 7 2 99 1 [7]" "[8]" JoinGame]
    structural_errors [of 99 1 ?J 0 "ExternalEuint8 7 2 99 1 [7]" "[7]" JoinGame]
  show ?thesis
    using j by (simp add: verifyInput_def)
qed

section \<open>The account after joining\<close>

text \<open>
  Claim C6. When \<^verbatim>\<open>joinGame\<close> succeeds for a caller, the resulting state has the caller's
  join flag set, a balance that decrypts to 10000, the nine grid slots 0 to 8 each
  decrypting to 0, and a last status that decrypts to 0 (success).
\<close>

theorem joinGame_initial_account:
  assumes "joinGame this sender s = Inr s'"
  shows "s_hasJoined s' sender \<and>
         decrypt64 (s_balances s' sender) = 10000 \<and>
         (\<forall>i \<in> {0, 1, 2, 3, 4, 5, 6, 7, 8}. decrypt8 (s_buildings s' sender i) = 0) \<and>
         decrypt8 (s_lastPlacementStatus s' sender) = 0"
proof -
  from assms have s': "s' = exec_stmts this s (joinGame_body sender)"
    by (simp add: joinGame_Inr)
  have "\<forall>i \<in> {0, 1, 2, 3, 4, 5, 6, 7, 8}. decrypt8 (s_buildings s' sender i) = 0"
    unfolding s' by (simp add: join_buildings_self GRID_SIZE_eq)
  then show ?thesis
    unfolding s' by (simp add: join_hasJoined join_balances join_status STARTING_GOLD_def
        STATUS_SUCCESS_def)
qed

theorem joinGame_initial_account_witness:
  "joinGame 99 1 init_state = Inr (exec_stmts 99 init_state (joinGame_body 1)) \<and>
   s_hasJoined (exec_stmts 99 init_state (joinGame_body 1)) 1 \<and>
   decrypt64 (s_balances (exec_stmts 99 init_state (joinGame_body 1)) 1) = 10000 \<and>
   decrypt8 (s_buildings (exec_stmts 99 init_state (joinGame_body 1)) 1 0) = 0 \<and>
   decrypt8 (s_buildings (exec_stmts 99 init_state (joinGame_body 1)) 1 8) = 0 \<and>
   decrypt8 (s_lastPlacementStatus (exec_stmts 99 init_state (joinGame_body 1)) 1) = 0"
proof -
  have j: "joinGame 99 1 init_state = Inr (exec_stmts 99 init_state (joinGame_body 1))"
    by (simp add: joinGame_def init_state_def)
  from joinGame_initial_account [OF j] show ?thesis
    using j by simp
qed

section \<open>Isolation between players\<close>

text \<open>
  Claim C9. For distinct addresses \<open>A\<close> and \<open>B\<close>, a call of \<^verbatim>\<open>joinGame\<close> or
  \<^verbatim>\<open>placeBuilding\<close> made by \<open>A\<close> leaves the join flag, the balance, every tile and the
  last status stored for \<open>B\<close> unchanged (the stored handles themselves, not only their
  plaintexts).
\<close>

theorem cross_identity_isolation:
  assumes "A \<noteq> B"
  shows "s_hasJoined (transact this s (A, c)) B = s_hasJoined s B \<and>
         s_balances (transact this s (A, c)) B = s_balances s B \<and>
         s_buildings (transact this s (A, c)) B = s_buildings s B \<and>
         s_lastPlacementStatus (transact this s (A, c)) B = s_lastPlacementStatus s B"
  using assms by (rule transact_frame)

theorem cross_identity_isolation_witness:
  "(1 :: address) \<noteq> 2 \<and>
   s_hasJoined (transact 99 (transact_all 99 init_state [(2, JoinGame)]) (1, JoinGame)) 2 \<and>
   s_balances (transact 99 (transact_all 99 init_state [(2, JoinGame)]) (1, JoinGame)) 2 =
     FHE_asEuint64 STARTING_GOLD \<and>
   s_buildings (transact 99 (transact_all 99 init_state [(2, JoinGame)]) (1, JoinGame)) 2 4 =
     FHE_asEuint8 0 \<and>
   s_lastPlacementStatus (transact 99 (transact_all 99 init_state [(2, JoinGame)]) (1, JoinGame)) 2 =
     FHE_asEuint8 STATUS_SUCCESS"
proof -
  have ne: "(1 :: address) \<noteq> 2" by simp
  from cross_identity_isolation [OF ne, of 99 "transact_all 99 init_state [(2, JoinGame)]" JoinGame]
  show ?thesis
    by (simp add: joined_state join_hasJoined join_balances join_status join_buildings_self
        GRID_SIZE_eq)
qed

section \<open>Occupied tiles\<close>

text \<open>
  Claim C7. For a joined player and a grid position \<open>p\<close>, once the tile stored at \<open>p\<close>
  decrypts to a value other than 0, no later call changes the plaintext of that tile,
  whatever its caller, position and proposed type: a placement on an occupied tile keeps
  the existing value. The statement covers every sequence of later transactions, calls of
  \<^verbatim>\<open>joinGame\<close> included.
\<close>

theorem occupied_tile_kept:
  assumes "s_hasJoined s owner" and "decrypt8 (s_buildings s owner p) \<noteq> 0"
  shows "decrypt8 (s_buildings (transact_all this s txs) owner p) =
         decrypt8 (s_buildings s owner p)"
  using assms
proof (induction txs arbitrary: s)
  case Nil
  show ?case by (simp add: transact_all_Nil)
next
  case (Cons tx txs)
  have j: "s_hasJoined (transact this s tx) owner"
    using Cons.prems(1) by (rule transact_joined_kept)
  have k: "decrypt8 (s_buildings (transact this s tx) owner p) = decrypt8 (s_buildings s owner p)"
    using Cons.prems by (rule transact_tile_kept)
  with Cons.prems(2) have "decrypt8 (s_buildings (transact this s tx) owner p) \<noteq> 0"
    by simp
  from Cons.IH [OF j this] k show ?case
    by (simp add: transact_all_Cons)
qed

theorem occupied_tile_kept_witness:
  "s_hasJoined (transact_all 99 init_state
      [(1, JoinGame), (1, PlaceBuilding 4 (ExternalEuint8 7 2 99 1 [7]) [7])]) 1 \<and>
   decrypt8 (s_buildings (transact_all 99 init_state
      [(1, JoinGame), (1, PlaceBuilding 4 (ExternalEuint8 7 2 99 1 [7]) [7])]) 1 4) = 2 \<and>
   decrypt8 (s_buildings (transact_all 99 (transact_all 99 init_state
        [(1, JoinGame), (1, PlaceBuilding 4 (ExternalEuint8 7 2 99 1 [7]) [7])])
      [(1, PlaceBuilding 4 (ExternalEuint8 8 3 99 1 [8]) [8]), (2, JoinGame),
       (2, PlaceBuilding 4 (ExternalEuint8 9 1 99 2 [9]) [9])]) 1 4) = 2"
proof -
  note f = placed_state_facts [of 99 1 7 "[7]"]
  have nz: "decrypt8 (s_buildings (transact_all 99 init_state
      [(1, JoinGame), (1, PlaceBuilding 4 (ExternalEuint8 7 2 99 1 [7]) [7])]) 1 4) \<noteq> 0"
    by (simp add: f)
  from occupied_tile_kept [OF f(1) nz, of 99
      "[(1, PlaceBuilding 4 (ExternalEuint8 8 3 99 1 [8]) [8]), (2, JoinGame),
        (2, PlaceBuilding 4 (ExternalEuint8 9 1 99 2 [9]) [9])]"]
  show ?thesis
    by (simp add: f)
qed

section \<open>Values on the grid\<close>

text \<open>
  Claim C10. In every state reached from the initial state by a sequence of transactions,
  every tile at a position 0 to 8 of a joined player decrypts to one of 0, 1, 2, 3, 4.
\<close>

theorem tiles_in_range:
  assumes "s = transact_all this init_state txs" and "s_hasJoined s p" and "i < GRID_SIZE"
  shows "decrypt8 (s_buildings s p i) \<in> {0, 1, 2, 3, 4}"
proof -
  have "\<forall>p i. s_hasJoined (transact_all this init_state txs) p \<and> i < GRID_SIZE \<longrightarrow>
          decrypt8 (s_buildings (transact_all this init_state txs) p i) \<in> {0, 1, 2, 3, 4}"
  proof (rule reachable_induct)
    show "\<forall>p i. s_hasJoined init_state p \<and> i < GRID_SIZE \<longrightarrow>
            decrypt8 (s_buildings init_state p i) \<in> {0, 1, 2, 3, 4}"
      by (simp add: init_state_def)
  qed (rule tile_range_step)
  with assms show ?thesis by blast
qed

theorem tiles_in_range_witness:
  "s_hasJoined (transact_all 99 init_state
      [(1, JoinGame), (1, PlaceBuilding 4 (ExternalEuint8 7 2 99 1 [7]) [7])]) 1 \<and>
   (4 :: 8 word) < GRID_SIZE \<and>
   decrypt8 (s_buildings (transact_all 99 init_state
      [(1, JoinGame), (1, PlaceBuilding 4 (ExternalEuint8 7 2 99 1 [7]) [7])]) 1 4) = 2 \<and>
   decrypt8 (s_buildings (transact_all 99 init_state
      [(1, JoinGame), (1, PlaceBuilding 4 (ExternalEuint8 7 2 99 1 [7]) [7])]) 1 4) \<in> {0, 1, 2, 3, 4}"
proof -
  note f = placed_state_facts [of 99 1 7 "[7]"]
  have lt: "(4 :: 8 word) < GRID_SIZE" by (simp add: GRID_SIZE_eq)
  from tiles_in_range [OF refl f(1) lt] show ?thesis
    using f lt by simp
qed

section \<open>The balance never wraps\<close>

text \<open>
  Claim C4. In every state reached from the initial state, the balance of a joined player
  decrypts to an integer between 0 and 10000. The 64-bit subtraction of \<^verbatim>\<open>placeBuilding\<close>
  never wraps: the amount subtracted is 0 when the placement is rejected and a cost that is
  at most the balance when it is accepted, so that the new balance is the old one minus
  that amount as integers.
\<close>

theorem balance_never_wraps:
  assumes "s = transact_all this init_state txs" and "s_hasJoined s p"
  shows "0 \<le> uint (decrypt64 (s_balances s p)) \<and> uint (decrypt64 (s_balances s p)) \<le> 10000 \<and>
         (placeBuilding this p position buildingType inputProof s = Inr s' \<and>
          b = decrypt64 (s_balances s p) \<and>
          spend = (if ext_plain buildingType \<in> {1, 2, 3, 4} \<and>
                      decrypt8 (s_buildings s p position) = 0 \<and>
                      cost_of (ext_plain buildingType) \<le> b
                   then cost_of (ext_plain buildingType) else 0) \<longrightarrow>
          spend \<le> b \<and>
          uint (decrypt64 (s_balances s' p)) = uint b - uint spend)"
proof (intro conjI impI)
  have "\<forall>p. s_hasJoined (transact_all this init_state txs) p \<longrightarrow>
          decrypt64 (s_balances (transact_all this init_state txs) p) \<le> 10000"
  proof (rule reachable_induct)
    show "\<forall>p. s_hasJoined init_state p \<longrightarrow> decrypt64 (s_balances init_state p) \<le> 10000"
      by (simp add: init_state_def)
  qed (rule balance_bound_step)
  with assms have "decrypt64 (s_balances s p) \<le> 10000" by blast
  then show "uint (decrypt64 (s_balances s p)) \<le> 10000"
    by (simp add: word_le_def)
  show "0 \<le> uint (decrypt64 (s_balances s p))" by simp
next
  assume h: "placeBuilding this p position buildingType inputProof s = Inr s' \<and>
            b = decrypt64 (s_balances s p) \<and>
            spend = (if ext_plain buildingType \<in> {1, 2, 3, 4} \<and>
                        decrypt8 (s_buildings s p position) = 0 \<and>
                        cost_of (ext_plain buildingType) \<le> b
                     then cost_of (ext_plain buildingType) else 0)"
  then have s': "s' = exec_stmts this s (placeBuilding_body s p position buildingType inputProof)"
    by (simp add: placeBuilding_Inr)
  from h show le: "spend \<le> b" by auto
  have "decrypt64 (s_balances s' p) = b - spend"
    unfolding s' place_balance_plain using h by auto
  with le show "uint (decrypt64 (s_balances s' p)) = uint b - uint spend"
    by (simp add: word_sub_uint)
qed

theorem balance_never_wraps_witness:
  "s_hasJoined (transact_all 99 init_state
      [(1, JoinGame), (1, PlaceBuilding 4 (ExternalEuint8 7 2 99 1 [7]) [7])]) 1 \<and>
   uint (decrypt64 (s_balances (transact_all 99 init_state
      [(1, JoinGame), (1, PlaceBuilding 4 (ExternalEuint8 7 2 99 1 [7]) [7])]) 1)) = 9800 \<and>
   placeBuilding 99 1 5 (ExternalEuint8 8 4 99 1 [8]) [8] (transact_all 99 init_state
      [(1, JoinGame), (1, PlaceBuilding 4 (ExternalEuint8 7 2 99 1 [7]) [7])]) =
     Inr (transact 99 (transact_all 99 init_state
            [(1, JoinGame), (1, PlaceBuilding 4 (ExternalEuint8 7 2 99 1 [7]) [7])])
          (1, PlaceBuilding 5 (ExternalEuint8 8 4 99 1 [8]) [8])) \<and>
   uint (decrypt64 (s_balances (transact 99 (transact_all 99 init_state
            [(1, JoinGame), (1, PlaceBuilding 4 (ExternalEuint8 7 2 99 1 [7]) [7])])
          (1, PlaceBuilding 5 (ExternalEuint8 8 4 99 1 [8]) [8])) 1)) = 9800 - 1000"
proof -
  let ?S = "transact_all 99 init_state
      [(1, JoinGame), (1, PlaceBuilding 4 (ExternalEuint8 7 2 99 1 [7]) [7])]"
  note f = placed_state_facts [of 99 1 7 "[7]"]
  have pl: "placeBuilding 99 1 5 (ExternalEuint8 8 4 99 1 [8]) [8] ?S =
      Inr (transact 99 ?S (1, PlaceBuilding 5 (ExternalEuint8 8 4 99 1 [8]) [8]))"
    by (rule placeBuilding_transact) (simp_all add: f GRID_SIZE_eq verifyInput_def)
  have tile: "decrypt8 (s_buildings ?S 1 5) = 0"
  proof -
    have "(1 :: address) \<noteq> 1 \<or> (5 :: 8 word) \<noteq> 4" by simp
    from place_buildings_other [OF this, of 99 "transact_all 99 init_state [(1, JoinGame)]"
        "ExternalEuint8 7 2 99 1 [7]" "[7]"]
      transact_all_snoc [of 99 init_state "[(1, JoinGame)]"
        "(1, PlaceBuilding 4 (ExternalEuint8 7 2 99 1 [7]) [7])"]
    show ?thesis
      by (simp add: transact_place joined_state_facts GRID_SIZE_eq verifyInput_def)
  qed
  from balance_never_wraps [OF refl f(1), where position = 5
      and buildingType = "ExternalEuint8 8 4 99 1 [8]" and inputProof = "[8]"
      and s' = "transact 99 ?S (1, PlaceBuilding 5 (ExternalEuint8 8 4 99 1 [8]) [8])"
      and b = 9800 and spend = 1000]
  show ?thesis
    using pl by (simp add: f tile cost_of_table)
qed

section \<open>Decryption rights on stored values\<close>

text \<open>
  Claim C8, as stated: every encrypted value stored in a player's account has been granted
  to the player and to the contract before it is stored. The source stores first and grants
  afterwards: \<^verbatim>\<open>joinGame\<close> writes the starting balance into \<^verbatim>\<open>_balances\<close> and only then
  calls \<^verbatim>\<open>FHE.allowThis\<close> and \<^verbatim>\<open>FHE.allow\<close> on it. In the first call of \<^verbatim>\<open>joinGame\<close> on
  a fresh contract, the balance is stored while no grant exists yet.
\<close>

theorem grants_before_stores_counterexample:
  "joinGame 99 1 init_state = Inr (exec_stmts 99 init_state (joinGame_body 1)) \<and>
   \<not> grants_precede_stores 99 init_state (joinGame_body 1)"
  by (simp add: joinGame_def joinGame_body_def Let_def init_state_def)

text \<open>
  Claim C8, amended. In every state reached from the initial state, that is after every
  completed call of \<^verbatim>\<open>joinGame\<close> or \<^verbatim>\<open>placeBuilding\<close>, every encrypted value stored in the
  account of a joined player (the balance, each of the nine grid slots and the last status)
  is granted both to the player and to the contract.
\<close>

theorem stored_values_granted:
  assumes "s = transact_all this init_state txs" and "s_hasJoined s p"
  shows "account_granted this s p"
proof -
  have "\<forall>p. s_hasJoined (transact_all this init_state txs) p \<longrightarrow>
          account_granted this (transact_all this init_state txs) p"
  proof (rule reachable_induct)
    show "\<forall>p. s_hasJoined init_state p \<longrightarrow> account_granted this init_state p"
      by (simp add: init_state_def)
  qed (rule granted_step)
  with assms show ?thesis by blast
qed

theorem stored_values_granted_witness:
  "s_hasJoined (transact_all 99 init_state
      [(1, JoinGame), (1, PlaceBuilding 4 (ExternalEuint8 7 2 99 1 [7]) [7])]) 1 \<and>
   account_granted 99 (transact_all 99 init_state
      [(1, JoinGame), (1, PlaceBuilding 4 (ExternalEuint8 7 2 99 1 [7]) [7])]) 1 \<and>
   (H8 (s_buildings (transact_all 99 init_state
      [(1, JoinGame), (1, PlaceBuilding 4 (ExternalEuint8 7 2 99 1 [7]) [7])]) 1 4), 1)
     \<in> s_acl (transact_all 99 init_state
      [(1, JoinGame), (1, PlaceBuilding 4 (ExternalEuint8 7 2 99 1 [7]) [7])]) \<and>
   (H64 (s_balances (transact_all 99 init_state
      [(1, JoinGame), (1, PlaceBuilding 4 (ExternalEuint8 7 2 99 1 [7]) [7])]) 1), 99)
     \<in> s_acl (transact_all 99 init_state
      [(1, JoinGame), (1, PlaceBuilding 4 (ExternalEuint8 7 2 99 1 [7]) [7])])"
proof -
  note f = placed_state_facts [of 99 1 7 "[7]"]
  from stored_values_granted [OF refl f(1)] show ?thesis
    using f(1) by (simp add: account_granted_def)
qed

end
